theory Spec2Isabelle
  imports Main "HOL-Library.Sublist"
begin

section \<open>The mini-LinkedIn backend of \<^verbatim>\<open>src/server.js\<close>\<close>

text \<open>
  The server is one file: three mongoose models, the \<^verbatim>\<open>auth\<close> middleware and seven
  routes, of which the two that only read jobs are left out. The embedding keeps the
  collections as lists of documents (insertion order is the order \<^verbatim>\<open>find\<close> returns), passes the database explicitly, and returns the HTTP
  response as a value. A rejected promise that no handler catches is the \<open>Inl\<close> of an
  outcome: express 4 sends no response for it.

  The libraries are modelled by what the source relies on:
  \<^item> an \<^verbatim>\<open>ObjectId\<close> is a \<open>nat\<close>; route parameters are taken to be well-formed ids;
  \<^item> a signed token is the symbolic term \<open>Jwt i k\<close>: the payload \<^verbatim>\<open>{id: i}\<close> signed
    with the secret \<open>k\<close> (HS256); verification succeeds exactly under the same secret,
    and signing throws when the secret is empty or unset;
  \<^item> a bcrypt hash is the symbolic term \<open>Hashed salt key\<close>, \<open>key\<close> being the 72 bytes
    of key material bcrypt reads: the password and a NUL byte, repeated cyclically;
  \<^item> request bodies carry strings where the route computes with them (email, password);
  \<^item> the database is always reachable, so no query rejects for that reason.
\<close>

subsection \<open>Models (lines 27--58)\<close>

type_synonym objectId = nat

datatype hashed = Hashed (salt_of: string) (key_of: string)

text \<open>
  \<^verbatim>\<open>name\<close>, \<^verbatim>\<open>password\<close> and \<^verbatim>\<open>bio\<close> are optional: registration stores the name
  only if the body has one, \<^verbatim>\<open>.select("-password")\<close> yields a document without the
  password, and registration never sets the bio.
\<close>

record user =
  user_id :: objectId
  name :: "string option"
  email :: string
  password :: "hashed option"
  bio :: "string option"
  skills :: "string list"
  connections :: "objectId list"

record connectionRequest =
  request_id :: objectId
  sender :: objectId
  receiver :: objectId
  status :: string

record job =
  job_id :: objectId
  company :: objectId
  title :: string
  description :: string
  location :: string
  skillsRequired :: "string list"
  applicants :: "objectId list"

record db =
  users :: "user list"
  requests :: "connectionRequest list"
  jobs :: "job list"

subsection \<open>Tokens, headers and password hashes\<close>

text \<open>
  A header value is kept as the list of its pieces between single spaces, which is what
  \<^verbatim>\<open>header.split(" ")\<close> computes; a piece is plain text or a signed token. The empty
  header value is \<open>[Plain []]\<close>, and \<^verbatim>\<open>split\<close> never returns the empty list.
\<close>

datatype word = Plain string | Jwt objectId string

type_synonym header = "word list"

text \<open>
  \<^verbatim>\<open>jwt.sign({ id: i }, process.env.JWT_SECRET)\<close>. The secret is a string, the empty one
  standing for an unset variable as well; on it the library throws
  (\<^verbatim>\<open>secretOrPrivateKey must have a value\<close>), which is \<open>None\<close>.
\<close>

definition jwt_sign :: "objectId \<Rightarrow> string \<Rightarrow> word option" where
  "jwt_sign i secret = (if secret = [] then None else Some (Jwt i secret))"

text \<open>
  \<^verbatim>\<open>jwt.verify(token, secret)\<close>: \<open>None\<close> stands for the exception it throws, on
  \<^verbatim>\<open>undefined\<close>, on a malformed token and on a signature made with another secret.
  The equation for a signed token is that of a configured, non-empty secret; no token
  \<open>Jwt i []\<close> is ever issued.
\<close>

fun jwt_verify :: "word option \<Rightarrow> string \<Rightarrow> objectId option" where
  "jwt_verify None secret = None"
| "jwt_verify (Some (Plain s)) secret = None"
| "jwt_verify (Some (Jwt i k)) secret = (if k = secret then Some i else None)"

text \<open>
  The key schedule of bcrypt reads 72 bytes (18 words) from the password followed by a
  NUL byte, starting over at its end. Two passwords with the same 72 bytes get the same
  hash under a salt, and \<^verbatim>\<open>compareSync\<close> accepts each for the other.
\<close>

definition bcrypt_key :: "string \<Rightarrow> string" where
  "bcrypt_key pw = (let k = pw @ [CHR 0x00] in map (\<lambda>i. k ! (i mod length k)) [0..<72])"

definition bcrypt_hash :: "string \<Rightarrow> string \<Rightarrow> hashed" where
  "bcrypt_hash pw salt = Hashed salt (bcrypt_key pw)"

definition bcrypt_compareSync :: "string \<Rightarrow> hashed \<Rightarrow> bool" where
  "bcrypt_compareSync pw h = (bcrypt_key pw = key_of h)"

text \<open>\<^verbatim>\<open>xs[i]\<close> of JavaScript: \<^verbatim>\<open>undefined\<close> out of range.\<close>

definition index :: "'a list \<Rightarrow> nat \<Rightarrow> 'a option" where
  "index xs i = (if i < length xs then Some (xs ! i) else None)"

text \<open>\<^verbatim>\<open>!header\<close>: true of \<^verbatim>\<open>undefined\<close> and of the empty string.\<close>

fun falsy :: "header option \<Rightarrow> bool" where
  "falsy None = True"
| "falsy (Some ws) = (ws = [Plain []])"

subsection \<open>Responses\<close>

datatype body =
    Message string
  | TokenUser word user
  | UserArray "user list"
  | RequestDoc connectionRequest

record response =
  http_status :: nat
  json :: body

datatype error = TypeError | IllegalArguments | SecretMissing

type_synonym outcome = "error + response"

text \<open>\<^verbatim>\<open>res.status(c).json(b)\<close>, and \<^verbatim>\<open>res.json(b)\<close> with the default status 200.\<close>

definition reply :: "nat \<Rightarrow> body \<Rightarrow> response" where
  "reply c b = \<lparr>http_status = c, json = b\<rparr>"

subsection \<open>Queries\<close>

definition User_findById :: "db \<Rightarrow> objectId \<Rightarrow> user option" where
  "User_findById d i = find (\<lambda>u. user_id u = i) (users d)"

definition User_findOne_email :: "db \<Rightarrow> string \<Rightarrow> user option" where
  "User_findOne_email d e = find (\<lambda>u. email u = e) (users d)"

definition select_minus_password :: "user \<Rightarrow> user" where
  "select_minus_password u = u\<lparr>password := None\<rparr>"

datatype db_error = DuplicateKey

text \<open>\<^verbatim>\<open>email: { type: String, unique: true }\<close>: the insert fails on a stored email.\<close>

definition User_create :: "db \<Rightarrow> user \<Rightarrow> db_error + user \<times> db" where
  "User_create d doc =
     (if list_ex (\<lambda>u. email u = email doc) (users d) then Inl DuplicateKey
      else Inr (doc, d\<lparr>users := users d @ [doc]\<rparr>))"

definition ConnectionRequest_findOne ::
    "db \<Rightarrow> objectId \<Rightarrow> objectId \<Rightarrow> connectionRequest option" where
  "ConnectionRequest_findOne d s r = find (\<lambda>c. sender c = s \<and> receiver c = r) (requests d)"

text \<open>\<^verbatim>\<open>status: { type: String, default: "pending" }\<close>.\<close>

definition ConnectionRequest_create ::
    "db \<Rightarrow> objectId \<Rightarrow> objectId \<Rightarrow> objectId \<Rightarrow> connectionRequest \<times> db" where
  "ConnectionRequest_create d oid s r =
     (let doc = \<lparr>request_id = oid, sender = s, receiver = r, status = ''pending''\<rparr>
      in (doc, d\<lparr>requests := requests d @ [doc]\<rparr>))"

definition addToSet :: "'a \<Rightarrow> 'a list \<Rightarrow> 'a list" where
  "addToSet x xs = (if x \<in> set xs then xs else xs @ [x])"

fun update_one :: "('a \<Rightarrow> bool) \<Rightarrow> ('a \<Rightarrow> 'a) \<Rightarrow> 'a list \<Rightarrow> 'a list" where
  "update_one P f [] = []"
| "update_one P f (x # xs) = (if P x then f x # xs else x # update_one P f xs)"

definition Job_findByIdAndUpdate_addToSet :: "db \<Rightarrow> objectId \<Rightarrow> objectId \<Rightarrow> db" where
  "Job_findByIdAndUpdate_addToSet d i a =
     d\<lparr>jobs := update_one (\<lambda>j. job_id j = i)
                  (\<lambda>j. j\<lparr>applicants := addToSet a (applicants j)\<rparr>) (jobs d)\<rparr>"

subsection \<open>The \<^verbatim>\<open>$regex\<close> query with option \<^verbatim>\<open>i\<close>\<close>

text \<open>
  The query string is handed to the database as a regular expression. The fragment
  modelled is a sequence of literal characters and the dot; a pattern with any other
  metacharacter is outside it and compiles to \<open>None\<close>. The letters \<open>A\<close> to \<open>Z\<close>
  are folded onto \<open>a\<close> to \<open>z\<close>, which is the caseless matching of ASCII text; a document
  without a name does not match any pattern, not even the empty one.
\<close>

datatype atom = Lit char | AnyChar

definition metachars :: "char list" where
  "metachars = [CHR 0x5C, CHR 0x5E, CHR 0x24, CHR 0x2E, CHR 0x7C, CHR 0x3F, CHR 0x2A,
     CHR 0x2B, CHR 0x28, CHR 0x29, CHR 0x5B, CHR 0x5D, CHR 0x7B, CHR 0x7D]"

fun regex_compile :: "string \<Rightarrow> atom list option" where
  "regex_compile [] = Some []"
| "regex_compile (c # cs) =
     (case regex_compile cs of
        None \<Rightarrow> None
      | Some as \<Rightarrow>
          if c = CHR 0x2E then Some (AnyChar # as)
          else if c \<in> set metachars then None
          else Some (Lit c # as))"

definition lower :: "char \<Rightarrow> char" where
  "lower c =
     (case map_of (zip ''ABCDEFGHIJKLMNOPQRSTUVWXYZ'' ''abcdefghijklmnopqrstuvwxyz'') c of
        None \<Rightarrow> c
      | Some l \<Rightarrow> l)"

fun atom_matches :: "atom \<Rightarrow> char \<Rightarrow> bool" where
  "atom_matches (Lit x) c = (lower x = lower c)"
| "atom_matches AnyChar c = (c \<noteq> CHR 0x0A)"

fun match_here :: "atom list \<Rightarrow> string \<Rightarrow> bool" where
  "match_here [] s = True"
| "match_here (a # as) [] = False"
| "match_here (a # as) (c # cs) = (atom_matches a c \<and> match_here as cs)"

fun regex_search :: "atom list \<Rightarrow> string \<Rightarrow> bool" where
  "regex_search as [] = match_here as []"
| "regex_search as (c # cs) = (match_here as (c # cs) \<or> regex_search as cs)"

definition name_matches :: "atom list \<Rightarrow> user \<Rightarrow> bool" where
  "name_matches as u = (case name u of None \<Rightarrow> False | Some n \<Rightarrow> regex_search as n)"

definition User_find_name_regex :: "db \<Rightarrow> string \<Rightarrow> user list option" where
  "User_find_name_regex d q =
     map_option (\<lambda>as. filter (name_matches as) (users d)) (regex_compile q)"

text \<open>
  The specification's wording, for comparison: the user has a name, and the name
  contains \<open>q\<close> as a case-insensitive substring.
\<close>

definition contains_ci :: "string \<Rightarrow> string \<Rightarrow> bool" where
  "contains_ci s q = sublist (map lower q) (map lower s)"

definition name_contains_ci :: "user \<Rightarrow> string \<Rightarrow> bool" where
  "name_contains_ci u q = (case name u of None \<Rightarrow> False | Some n \<Rightarrow> contains_ci n q)"

text \<open>
  ASCII text: every byte is below 128, and none is NUL, which a pattern cannot hold.
\<close>

definition ascii :: "string \<Rightarrow> bool" where
  "ascii s = list_all (\<lambda>c. c \<noteq> CHR 0x00 \<and> \<not> digit7 c) s"

definition ascii_names :: "db \<Rightarrow> bool" where
  "ascii_names d = list_all (\<lambda>u. case name u of None \<Rightarrow> True | Some n \<Rightarrow> ascii n) (users d)"

subsection \<open>Middleware (lines 63--79)\<close>

text \<open>
  \<^verbatim>\<open>auth(req, res, next)\<close> in continuation-passing style, as the source has it:
  \<open>res_json\<close> sends the response, \<open>next\<close> receives \<^verbatim>\<open>req.user\<close> and runs the rest of
  the route.
\<close>

definition auth ::
    "db \<Rightarrow> string \<Rightarrow> header option \<Rightarrow> (response \<Rightarrow> 'a) \<Rightarrow> (user option \<Rightarrow> 'a) \<Rightarrow> 'a" where
  "auth d secret hdr res_json next =
     (if falsy hdr then res_json (reply 401 (Message ''No token''))
      else
        let token = index (case hdr of Some ws \<Rightarrow> ws | None \<Rightarrow> []) 1 in
        case jwt_verify token secret of
          None \<Rightarrow> res_json (reply 401 (Message ''Invalid token''))
        | Some decoded \<Rightarrow>
            next (map_option select_minus_password (User_findById d decoded)))"

text \<open>The effects of one run of the middleware, in order.\<close>

datatype event = Sent response | NextCalled "user option"

definition auth_trace :: "db \<Rightarrow> string \<Rightarrow> header option \<Rightarrow> event list" where
  "auth_trace d secret hdr = auth d secret hdr (\<lambda>r. [Sent r]) (\<lambda>p. [NextCalled p])"

subsection \<open>Auth routes (lines 84--110)\<close>

record register_body =
  reg_name :: "string option"
  reg_email :: string
  reg_password :: string

text \<open>
  \<open>oid\<close> is the \<^verbatim>\<open>_id\<close> the driver generates for the new document, \<open>salt\<close> the salt
  \<^verbatim>\<open>bcrypt.hash(password, 10)\<close> draws. Whatever is thrown inside the \<^verbatim>\<open>try\<close> block is
  answered with 500 by the \<^verbatim>\<open>catch\<close>; when \<^verbatim>\<open>jwt.sign\<close> throws, the user is stored
  already.
\<close>

definition register :: "db \<Rightarrow> string \<Rightarrow> objectId \<Rightarrow> string \<Rightarrow> register_body \<Rightarrow> outcome \<times> db" where
  "register d secret oid salt b =
     (case User_findOne_email d (reg_email b) of
        Some _ \<Rightarrow> (Inr (reply 400 (Message ''Email already exists'')), d)
      | None \<Rightarrow>
          let hashed = bcrypt_hash (reg_password b) salt in
          (case User_create d
              \<lparr>user_id = oid, name = reg_name b, email = reg_email b, password = Some hashed,
               bio = None, skills = [], connections = []\<rparr> of
             Inl err \<Rightarrow> (Inr (reply 500 (Message ''Server error'')), d)
           | Inr (u, d') \<Rightarrow>
               (case jwt_sign (user_id u) secret of
                  None \<Rightarrow> (Inr (reply 500 (Message ''Server error'')), d')
                | Some token \<Rightarrow> (Inr (reply 200 (TokenUser token u)), d'))))"

record login_body =
  login_email :: string
  login_password :: string

text \<open>
  Nothing is caught here: \<^verbatim>\<open>bcrypt.compareSync\<close> throws on a stored user without a
  password and \<^verbatim>\<open>jwt.sign\<close> on an empty secret, and the request is left unanswered.
\<close>

definition login :: "db \<Rightarrow> string \<Rightarrow> login_body \<Rightarrow> outcome" where
  "login d secret b =
     (case User_findOne_email d (login_email b) of
        None \<Rightarrow> Inr (reply 400 (Message ''Invalid email''))
      | Some u \<Rightarrow>
          (case password u of
             None \<Rightarrow> Inl IllegalArguments
           | Some h \<Rightarrow>
               if \<not> bcrypt_compareSync (login_password b) h
               then Inr (reply 400 (Message ''Wrong password''))
               else
                 (case jwt_sign (user_id u) secret of
                    None \<Rightarrow> Inl SecretMissing
                  | Some token \<Rightarrow> Inr (reply 200 (TokenUser token u)))))"

subsection \<open>Users route (lines 115--119)\<close>

text \<open>\<open>None\<close>: the pattern is outside the modelled fragment.\<close>

definition users_all :: "db \<Rightarrow> string option \<Rightarrow> outcome option" where
  "users_all d query_q =
     (let q = (case query_q of None \<Rightarrow> [] | Some s \<Rightarrow> s)
      in map_option (\<lambda>us. Inr (reply 200 (UserArray us))) (User_find_name_regex d q))"

definition get_users_all :: "db \<Rightarrow> string \<Rightarrow> header option \<Rightarrow> string option \<Rightarrow> outcome option" where
  "get_users_all d secret hdr query_q =
     auth d secret hdr (\<lambda>r. Some (Inr r)) (\<lambda>req_user. users_all d query_q)"

subsection \<open>Connection route (lines 124--133)\<close>

text \<open>\<^verbatim>\<open>req.user._id\<close> throws a TypeError when \<^verbatim>\<open>req.user\<close> is null.\<close>

definition connections_request ::
    "db \<Rightarrow> objectId \<Rightarrow> user option \<Rightarrow> objectId \<Rightarrow> outcome \<times> db" where
  "connections_request d oid req_user params_id =
     (case req_user of
        None \<Rightarrow> (Inl TypeError, d)
      | Some u \<Rightarrow>
          let sender = user_id u; receiver = params_id in
          (case ConnectionRequest_findOne d sender receiver of
             Some _ \<Rightarrow> (Inr (reply 400 (Message ''Already sent'')), d)
           | None \<Rightarrow>
               let (reqObj, d') = ConnectionRequest_create d oid sender receiver
               in (Inr (reply 200 (RequestDoc reqObj)), d')))"

definition post_connections_request ::
    "db \<Rightarrow> string \<Rightarrow> objectId \<Rightarrow> header option \<Rightarrow> objectId \<Rightarrow> outcome \<times> db" where
  "post_connections_request d secret oid hdr params_id =
     auth d secret hdr (\<lambda>r. (Inr r, d)) (\<lambda>req_user. connections_request d oid req_user params_id)"

subsection \<open>Job application route (lines 148--153)\<close>

definition jobs_apply :: "db \<Rightarrow> user option \<Rightarrow> objectId \<Rightarrow> outcome \<times> db" where
  "jobs_apply d req_user params_id =
     (case req_user of
        None \<Rightarrow> (Inl TypeError, d)
      | Some u \<Rightarrow>
          (Inr (reply 200 (Message ''Applied'')),
           Job_findByIdAndUpdate_addToSet d params_id (user_id u)))"

definition post_jobs_apply ::
    "db \<Rightarrow> string \<Rightarrow> header option \<Rightarrow> objectId \<Rightarrow> outcome \<times> db" where
  "post_jobs_apply d secret hdr params_id =
     auth d secret hdr (\<lambda>r. (Inr r, d)) (\<lambda>req_user. jobs_apply d req_user params_id)"

text \<open>The header \<^verbatim>\<open>Bearer <token>\<close>.\<close>

definition bearer :: "word \<Rightarrow> header option" where
  "bearer t = Some [Plain ''Bearer'', t]"

subsection \<open>Example data\<close>

text \<open>The empty database, and the database after alice has registered.\<close>

definition db0 :: db where
  "db0 = \<lparr>users = [], requests = [], jobs = []\<rparr>"

definition alice_body :: register_body where
  "alice_body = \<lparr>reg_name = Some ''alice'', reg_email = ''alice@x.com'', reg_password = ''pw1''\<rparr>"

definition alice :: user where
  "alice = \<lparr>user_id = 1, name = Some ''alice'', email = ''alice@x.com'',
            password = Some (bcrypt_hash ''pw1'' ''salt''), bio = None, skills = [],
            connections = []\<rparr>"

definition db1 :: db where
  "db1 = \<lparr>users = [alice], requests = [], jobs = []\<rparr>"

text \<open>Alice and bob are registered; in \<open>db3\<close> a rejected request from alice to bob is stored.\<close>

definition bob :: user where
  "bob = \<lparr>user_id = 2, name = Some ''bob'', email = ''bob@x.com'',
          password = Some (bcrypt_hash ''pw2'' ''pepper''), bio = None, skills = [],
          connections = []\<rparr>"

definition db2 :: db where
  "db2 = \<lparr>users = [alice, bob], requests = [], jobs = []\<rparr>"

definition db3 :: db where
  "db3 = \<lparr>users = [alice, bob],
          requests = [\<lparr>request_id = 10, sender = 1, receiver = 2, status = ''rejected''\<rparr>],
          jobs = []\<rparr>"

text \<open>In \<open>db4\<close> bob's company has posted job 5, and bob has applied to it.\<close>

definition job5 :: job where
  "job5 = \<lparr>job_id = 5, company = 2, title = ''engineer'', description = ''builds'',
           location = ''remote'', skillsRequired = [''hol''], applicants = [2]\<rparr>"

definition db4 :: db where
  "db4 = \<lparr>users = [alice, bob], requests = [], jobs = [job5]\<rparr>"

text \<open>In \<open>db5\<close> the applicants of job 5 hold alice's id twice.\<close>

definition db5 :: db where
  "db5 = \<lparr>users = [alice, bob], requests = [], jobs = [job5\<lparr>applicants := [1, 1]\<rparr>]\<rparr>"

text \<open>In \<open>db6\<close> a user without a password field is stored.\<close>

definition carol :: user where
  "carol = \<lparr>user_id = 3, name = Some ''carol'', email = ''carol@x.com'',
            password = None, bio = None, skills = [], connections = []\<rparr>"

definition db6 :: db where
  "db6 = \<lparr>users = [alice, carol], requests = [], jobs = []\<rparr>"

section \<open>The authentication gate\<close>

lemma auth_no_header:
  "auth d secret None res_json next = res_json (reply 401 (Message ''No token''))"
  by (simp add: auth_def)

text \<open>
  C2. A request to a protected route without an Authorization header is answered with
  401 and the message "No token"; the middleware sends that response and does not call
  \<^verbatim>\<open>next\<close>, so none of the three protected handlers modelled runs and the database is
  left as it was.
\<close>

theorem C2_no_header_unauthenticated:
  "auth_trace d secret None = [Sent (reply 401 (Message ''No token''))]
   \<and> auth d secret None res_json next = res_json (reply 401 (Message ''No token''))
   \<and> get_users_all d secret None q = Some (Inr (reply 401 (Message ''No token'')))
   \<and> post_connections_request d secret oid None i = (Inr (reply 401 (Message ''No token'')), d)
   \<and> post_jobs_apply d secret None i = (Inr (reply 401 (Message ''No token'')), d)"
  by (simp add: auth_trace_def get_users_all_def post_connections_request_def
      post_jobs_apply_def auth_no_header)

lemma index_1_not_empty_header: "index ws 1 = Some t \<Longrightarrow> \<not> falsy (Some ws)"
  by (auto simp: index_def)

lemma auth_invalid:
  assumes "\<not> falsy (Some ws)" and "jwt_verify (index ws 1) secret = None"
  shows "auth d secret (Some ws) res_json next = res_json (reply 401 (Message ''Invalid token''))"
  using assms by (simp add: auth_def)

lemma auth_valid:
  assumes "index ws 1 = Some (Jwt i secret)"
  shows "auth d secret (Some ws) res_json next =
           next (map_option select_minus_password (User_findById d i))"
proof -
  have "\<not> falsy (Some ws)"
    using assms by (rule index_1_not_empty_header)
  then show ?thesis
    using assms by (simp add: auth_def)
qed

text \<open>
  C3. A request whose header is present but whose token fails verification (the second
  piece of the header is missing, is not a token, or is a token signed with another
  secret) is answered with 401 and the message "Invalid token". The exception of
  \<^verbatim>\<open>jwt.verify\<close> is caught in the middleware: the only effect is that response, and
  every protected route ends with it as a sent response, not as an unhandled error.
\<close>

theorem C3_invalid_token_unauthenticated:
  assumes "\<not> falsy (Some ws)" and "jwt_verify (index ws 1) secret = None"
  shows "auth_trace d secret (Some ws) = [Sent (reply 401 (Message ''Invalid token''))]
   \<and> get_users_all d secret (Some ws) q = Some (Inr (reply 401 (Message ''Invalid token'')))
   \<and> post_connections_request d secret oid (Some ws) i
        = (Inr (reply 401 (Message ''Invalid token'')), d)
   \<and> post_jobs_apply d secret (Some ws) i = (Inr (reply 401 (Message ''Invalid token'')), d)"
  using assms
  by (simp add: auth_trace_def get_users_all_def post_connections_request_def
      post_jobs_apply_def auth_invalid)

text \<open>
  Two instances: a token signed with the secret \<open>other\<close> presented to a server whose
  secret is \<open>s3cret\<close>, and a malformed token.
\<close>

theorem C3_invalid_token_witness:
  "auth_trace \<lparr>users = [], requests = [], jobs = []\<rparr> ''s3cret''
       (bearer (Jwt 7 ''other''))
     = [Sent (reply 401 (Message ''Invalid token''))]
   \<and> post_jobs_apply \<lparr>users = [], requests = [], jobs = []\<rparr> ''s3cret''
       (bearer (Plain ''abc.def'')) 1
     = (Inr (reply 401 (Message ''Invalid token'')), \<lparr>users = [], requests = [], jobs = []\<rparr>)"
proof -
  have a: "\<not> falsy (Some [Plain ''Bearer'', Jwt 7 ''other''])"
    by simp
  have b: "jwt_verify (index [Plain ''Bearer'', Jwt 7 ''other''] 1) ''s3cret'' = None"
    by (simp add: index_def)
  have c: "\<not> falsy (Some [Plain ''Bearer'', Plain ''abc.def''])"
    by simp
  have e: "jwt_verify (index [Plain ''Bearer'', Plain ''abc.def''] 1) ''s3cret'' = None"
    by (simp add: index_def)
  show ?thesis
    using C3_invalid_token_unauthenticated [OF a b]
      C3_invalid_token_unauthenticated [OF c e]
    by (simp add: bearer_def)
qed

text \<open>
  C9. A request whose token verifies under the server's secret, but whose decoded id
  resolves to no stored user, is not rejected: the middleware sends nothing, sets
  \<^verbatim>\<open>req.user\<close> to null and calls \<^verbatim>\<open>next\<close> once.
\<close>

theorem C9_deleted_user_null_principal:
  assumes "index ws 1 = Some (Jwt i secret)" and "User_findById d i = None"
  shows "auth_trace d secret (Some ws) = [NextCalled None]
   \<and> auth d secret (Some ws) res_json next = next None"
  using assms by (simp add: auth_trace_def auth_valid)

theorem C9_deleted_user_witness:
  "auth_trace \<lparr>users = [], requests = [], jobs = []\<rparr> ''s3cret''
       (bearer (Jwt 7 ''s3cret'')) = [NextCalled None]"
proof -
  have a: "index [Plain ''Bearer'', Jwt 7 ''s3cret''] 1 = Some (Jwt 7 ''s3cret'')"
    by (simp add: index_def)
  have b: "User_findById \<lparr>users = [], requests = [], jobs = []\<rparr> 7 = None"
    by (simp add: User_findById_def)
  show ?thesis
    using C9_deleted_user_null_principal [OF a b, THEN conjunct1] by (simp add: bearer_def)
qed

section \<open>Registration and login\<close>

lemma User_findOne_email_None:
  "User_findOne_email d e = None \<longleftrightarrow> e \<notin> email ` set (users d)"
  by (auto simp: User_findOne_email_def find_None_iff)

lemma User_create_new_email:
  assumes "email doc \<notin> email ` set (users d)"
  shows "User_create d doc = Inr (doc, d\<lparr>users := users d @ [doc]\<rparr>)"
proof -
  have "\<not> list_ex (\<lambda>u. email u = email doc) (users d)"
  proof
    assume "list_ex (\<lambda>u. email u = email doc) (users d)"
    then obtain u where "u \<in> set (users d)" and "email u = email doc"
      by (auto simp: list_ex_iff)
    then have "email doc \<in> email ` set (users d)"
      by (metis imageI)
    with assms show False ..
  qed
  then show ?thesis
    by (simp add: User_create_def)
qed

lemma jwt_sign_configured: "secret \<noteq> [] \<Longrightarrow> jwt_sign i secret = Some (Jwt i secret)"
  by (simp add: jwt_sign_def)

lemma jwt_sign_unset: "jwt_sign i [] = None"
  by (simp add: jwt_sign_def)

lemma register_existing_email:
  assumes "reg_email b \<in> email ` set (users d)"
  shows "register d secret oid salt b
           = (Inr (reply 400 (Message ''Email already exists'')), d)"
proof -
  from assms obtain u where "User_findOne_email d (reg_email b) = Some u"
    using User_findOne_email_None [of d "reg_email b"] by auto
  then show ?thesis
    by (simp add: register_def)
qed

lemma register_new_email:
  assumes "reg_email b \<notin> email ` set (users d)" and "secret \<noteq> []"
  shows "register d secret oid salt b
           = (let u = \<lparr>user_id = oid, name = reg_name b, email = reg_email b,
                       password = Some (bcrypt_hash (reg_password b) salt),
                       bio = None, skills = [], connections = []\<rparr>
              in (Inr (reply 200 (TokenUser (Jwt oid secret) u)),
                  d\<lparr>users := users d @ [u]\<rparr>))"
proof -
  have "User_findOne_email d (reg_email b) = None"
    using assms(1) by (simp add: User_findOne_email_None)
  then show ?thesis
    using assms
    by (simp add: register_def User_create_new_email jwt_sign_configured Let_def)
qed

text \<open>
  Without a secret the new user is stored all the same, and the answer is the 500 of the
  \<^verbatim>\<open>catch\<close> block.
\<close>

lemma register_new_email_unset_secret:
  assumes "reg_email b \<notin> email ` set (users d)"
  shows "register d [] oid salt b
           = (let u = \<lparr>user_id = oid, name = reg_name b, email = reg_email b,
                       password = Some (bcrypt_hash (reg_password b) salt),
                       bio = None, skills = [], connections = []\<rparr>
              in (Inr (reply 500 (Message ''Server error'')), d\<lparr>users := users d @ [u]\<rparr>))"
proof -
  have "User_findOne_email d (reg_email b) = None"
    using assms by (simp add: User_findOne_email_None)
  then show ?thesis
    using assms
    by (simp add: register_def User_create_new_email jwt_sign_unset Let_def)
qed

text \<open>
  C4. Registering with an email that a stored user already has is answered with 400 and
  leaves the database as it was. Registering with an email no stored user has, on a
  server whose signing secret is set (not empty), is answered with 200 and a body holding
  a token and the new user; that user is appended to the collection, carries the
  submitted name and email, and \<^verbatim>\<open>jwt.verify\<close> under the server's secret decodes the
  token to exactly its \<^verbatim>\<open>_id\<close>.
\<close>

theorem C4_register_conflict_or_verifiable_token:
  "(reg_email b \<in> email ` set (users d) \<longrightarrow>
      register d secret oid salt b
        = (Inr (reply 400 (Message ''Email already exists'')), d))
   \<and> (reg_email b \<notin> email ` set (users d) \<and> secret \<noteq> [] \<longrightarrow>
      (\<exists>token u. register d secret oid salt b
           = (Inr (reply 200 (TokenUser token u)), d\<lparr>users := users d @ [u]\<rparr>)
         \<and> name u = reg_name b \<and> email u = reg_email b
         \<and> jwt_verify (Some token) secret = Some (user_id u)))"
proof (intro conjI impI)
  assume "reg_email b \<in> email ` set (users d)"
  then show "register d secret oid salt b
        = (Inr (reply 400 (Message ''Email already exists'')), d)"
    by (rule register_existing_email)
next
  assume "reg_email b \<notin> email ` set (users d) \<and> secret \<noteq> []"
  then have new: "reg_email b \<notin> email ` set (users d)" and key: "secret \<noteq> []"
    by simp_all
  define u where "u = \<lparr>user_id = oid, name = reg_name b, email = reg_email b,
                       password = Some (bcrypt_hash (reg_password b) salt),
                       bio = None, skills = [], connections = []\<rparr>"
  have "register d secret oid salt b
          = (Inr (reply 200 (TokenUser (Jwt oid secret) u)), d\<lparr>users := users d @ [u]\<rparr>)"
    using register_new_email [OF new key] by (simp add: u_def Let_def)
  moreover have "name u = reg_name b" and "email u = reg_email b"
    by (simp_all add: u_def)
  moreover have "jwt_verify (Some (Jwt oid secret)) secret = Some (user_id u)"
    by (simp add: u_def)
  ultimately show "\<exists>token u. register d secret oid salt b
           = (Inr (reply 200 (TokenUser token u)), d\<lparr>users := users d @ [u]\<rparr>)
         \<and> name u = reg_name b \<and> email u = reg_email b
         \<and> jwt_verify (Some token) secret = Some (user_id u)"
    by blast
qed

lemma register_alice:
  "register db0 ''s3cret'' 1 ''salt'' alice_body
     = (Inr (reply 200 (TokenUser (Jwt 1 ''s3cret'') alice)), db1)"
  by (simp add: register_def db0_def db1_def alice_body_def alice_def User_findOne_email_def
      User_create_def jwt_sign_def Let_def)

theorem C4_register_witness:
  "register db1 ''s3cret'' 2 ''salt'' alice_body
        = (Inr (reply 400 (Message ''Email already exists'')), db1)
   \<and> (\<exists>token u. register db0 ''s3cret'' 1 ''salt'' alice_body
           = (Inr (reply 200 (TokenUser token u)), db0\<lparr>users := users db0 @ [u]\<rparr>)
         \<and> name u = reg_name alice_body \<and> email u = reg_email alice_body
         \<and> jwt_verify (Some token) ''s3cret'' = Some (user_id u))"
proof -
  have old: "reg_email alice_body \<in> email ` set (users db1)"
    by (simp add: alice_body_def db1_def alice_def)
  have new: "reg_email alice_body \<notin> email ` set (users db0) \<and> ''s3cret'' \<noteq> []"
    by (simp add: db0_def)
  show ?thesis
    using C4_register_conflict_or_verifiable_token [of alice_body db1 "''s3cret''" 2 "''salt''"]
      C4_register_conflict_or_verifiable_token [of alice_body db0 "''s3cret''" 1 "''salt''"]
      old new
    by blast
qed

lemma bcrypt_key_nth:
  "i < 72 \<Longrightarrow> bcrypt_key pw ! i = (pw @ [CHR 0x00]) ! (i mod Suc (length pw))"
  by (simp add: bcrypt_key_def Let_def)

text \<open>
  The password \<open>pw2\<close> is not accepted for the hash of \<open>pw1\<close>. The password made of
  \<open>a\<close>, a NUL byte and \<open>a\<close> is accepted for the hash of \<open>a\<close>: both give the key
  material \<open>a\<close>, NUL, \<open>a\<close>, NUL and so on.
\<close>

lemma bcrypt_pw2_not_pw1: "\<not> bcrypt_compareSync ''pw2'' (bcrypt_hash ''pw1'' salt)"
proof
  assume "bcrypt_compareSync ''pw2'' (bcrypt_hash ''pw1'' salt)"
  then have "bcrypt_key ''pw2'' ! 2 = bcrypt_key ''pw1'' ! 2"
    by (simp add: bcrypt_compareSync_def bcrypt_hash_def)
  then show False
    by (simp add: bcrypt_key_nth)
qed

lemma bcrypt_cyclic_key_accepted:
  "bcrypt_compareSync [CHR ''a'', CHR 0x00, CHR ''a''] (bcrypt_hash ''a'' salt)"
proof -
  have "bcrypt_key [CHR ''a'', CHR 0x00, CHR ''a''] = bcrypt_key ''a''"
    by code_simp
  then show ?thesis
    by (simp add: bcrypt_compareSync_def bcrypt_hash_def)
qed

text \<open>
  C5, as the code has it. A login with an email no stored user has is answered with 400
  and the message "Invalid email". A login with a stored email, for a stored user with a
  password hash that \<^verbatim>\<open>bcrypt.compareSync\<close> does not accept the password for, is answered
  with 400 and the message "Wrong password". The status is the same, the body is not.
  When the stored user has no password field, \<^verbatim>\<open>bcrypt.compareSync\<close> throws and the
  request is left without a response.
\<close>

theorem C5_login_failures_distinct_messages:
  "(User_findOne_email d (login_email b) = None \<longrightarrow>
      login d secret b = Inr (reply 400 (Message ''Invalid email'')))
   \<and> (\<forall>u h. User_findOne_email d (login_email b) = Some u \<and> password u = Some h
          \<and> \<not> bcrypt_compareSync (login_password b) h \<longrightarrow>
      login d secret b = Inr (reply 400 (Message ''Wrong password'')))
   \<and> (\<forall>u. User_findOne_email d (login_email b) = Some u \<and> password u = None \<longrightarrow>
      login d secret b = Inl IllegalArguments)"
  by (simp add: login_def)

theorem C5_login_failures_witness:
  "login db1 ''s3cret'' \<lparr>login_email = ''bob@x.com'', login_password = ''pw1''\<rparr>
     = Inr (reply 400 (Message ''Invalid email''))
   \<and> login db1 ''s3cret'' \<lparr>login_email = ''alice@x.com'', login_password = ''pw2''\<rparr>
     = Inr (reply 400 (Message ''Wrong password''))
   \<and> login db6 ''s3cret'' \<lparr>login_email = ''carol@x.com'', login_password = ''pw3''\<rparr>
     = Inl IllegalArguments"
proof -
  have unknown: "User_findOne_email db1
      (login_email \<lparr>login_email = ''bob@x.com'', login_password = ''pw1''\<rparr>) = None"
    by (simp add: User_findOne_email_def db1_def alice_def)
  have known: "User_findOne_email db1
      (login_email \<lparr>login_email = ''alice@x.com'', login_password = ''pw2''\<rparr>) = Some alice
    \<and> password alice = Some (bcrypt_hash ''pw1'' ''salt'')
    \<and> \<not> bcrypt_compareSync
          (login_password \<lparr>login_email = ''alice@x.com'', login_password = ''pw2''\<rparr>)
          (bcrypt_hash ''pw1'' ''salt'')"
    by (simp add: User_findOne_email_def db1_def alice_def bcrypt_pw2_not_pw1)
  have bare: "User_findOne_email db6
      (login_email \<lparr>login_email = ''carol@x.com'', login_password = ''pw3''\<rparr>) = Some carol
    \<and> password carol = None"
    by (simp add: User_findOne_email_def db6_def alice_def carol_def)
  show ?thesis
    using C5_login_failures_distinct_messages
        [of db1 "\<lparr>login_email = ''bob@x.com'', login_password = ''pw1''\<rparr>" "''s3cret''"]
      C5_login_failures_distinct_messages
        [of db1 "\<lparr>login_email = ''alice@x.com'', login_password = ''pw2''\<rparr>" "''s3cret''"]
      C5_login_failures_distinct_messages
        [of db6 "\<lparr>login_email = ''carol@x.com'', login_password = ''pw3''\<rparr>" "''s3cret''"]
      unknown known bare
    by blast
qed

text \<open>
  The claim as the specification words it (the failure response is the same for an
  unknown email and for a wrong password) fails on the database holding alice.
\<close>

theorem C5_login_reveals_which_counterexample:
  "login db1 ''s3cret'' \<lparr>login_email = ''bob@x.com'', login_password = ''pw1''\<rparr>
     \<noteq> login db1 ''s3cret'' \<lparr>login_email = ''alice@x.com'', login_password = ''pw2''\<rparr>"
  by (simp add: login_def User_findOne_email_def db1_def alice_def bcrypt_pw2_not_pw1
      reply_def)

section \<open>Connection requests\<close>

lemma User_findById_Some_id: "User_findById d i = Some u \<Longrightarrow> user_id u = i"
  by (auto simp: User_findById_def find_Some_iff)

lemma auth_known_user:
  assumes "index ws 1 = Some (Jwt a secret)" and "User_findById d a = Some ua"
  shows "auth d secret (Some ws) res_json next = next (Some (select_minus_password ua))"
  using assms by (simp add: auth_valid)

lemma ConnectionRequest_findOne_None:
  "ConnectionRequest_findOne d s r = None
     \<longleftrightarrow> (\<forall>c\<in>set (requests d). \<not> (sender c = s \<and> receiver c = r))"
  by (auto simp: ConnectionRequest_findOne_def find_None_iff)

lemma connections_request_new:
  assumes "\<forall>c\<in>set (requests d). \<not> (sender c = user_id u \<and> receiver c = b)"
  shows "connections_request d oid (Some u) b =
     (Inr (reply 200 (RequestDoc
        \<lparr>request_id = oid, sender = user_id u, receiver = b, status = ''pending''\<rparr>)),
      d\<lparr>requests := requests d @
        [\<lparr>request_id = oid, sender = user_id u, receiver = b, status = ''pending''\<rparr>]\<rparr>)"
proof -
  have "ConnectionRequest_findOne d (user_id u) b = None"
    using assms by (simp add: ConnectionRequest_findOne_None)
  then show ?thesis
    by (simp add: connections_request_def ConnectionRequest_create_def Let_def)
qed

lemma connections_request_duplicate:
  assumes "\<exists>c\<in>set (requests d). sender c = user_id u \<and> receiver c = b"
  shows "connections_request d oid (Some u) b
           = (Inr (reply 400 (Message ''Already sent'')), d)"
proof -
  have "ConnectionRequest_findOne d (user_id u) b \<noteq> None"
    using assms by (simp add: ConnectionRequest_findOne_None)
  then obtain c where "ConnectionRequest_findOne d (user_id u) b = Some c"
    by auto
  then show ?thesis
    by (simp add: connections_request_def Let_def)
qed

lemma post_connections_request_known_user:
  assumes "index ws 1 = Some (Jwt a secret)" and "User_findById d a = Some ua"
  shows "post_connections_request d secret oid (Some ws) b
           = connections_request d oid (Some (select_minus_password ua)) b
         \<and> user_id (select_minus_password ua) = a"
  using assms
  by (simp add: post_connections_request_def auth_known_user User_findById_Some_id
      select_minus_password_def)

lemma post_connections_request_new:
  assumes "index ws 1 = Some (Jwt a secret)" and "User_findById d a = Some ua"
    and "\<forall>c\<in>set (requests d). \<not> (sender c = a \<and> receiver c = b)"
  shows "post_connections_request d secret oid (Some ws) b =
     (Inr (reply 200 (RequestDoc
        \<lparr>request_id = oid, sender = a, receiver = b, status = ''pending''\<rparr>)),
      d\<lparr>requests := requests d @
        [\<lparr>request_id = oid, sender = a, receiver = b, status = ''pending''\<rparr>]\<rparr>)"
proof -
  let ?p = "select_minus_password ua"
  have p: "post_connections_request d secret oid (Some ws) b
             = connections_request d oid (Some ?p) b" and i: "user_id ?p = a"
    using post_connections_request_known_user [OF assms(1,2)] by simp_all
  have "\<forall>c\<in>set (requests d). \<not> (sender c = user_id ?p \<and> receiver c = b)"
    using assms(3) i by simp
  from connections_request_new [OF this] show ?thesis
    using p i by simp
qed

lemma post_connections_request_duplicate:
  assumes "index ws 1 = Some (Jwt a secret)" and "User_findById d a = Some ua"
    and "\<exists>c\<in>set (requests d). sender c = a \<and> receiver c = b"
  shows "post_connections_request d secret oid (Some ws) b
           = (Inr (reply 400 (Message ''Already sent'')), d)"
proof -
  let ?p = "select_minus_password ua"
  have p: "post_connections_request d secret oid (Some ws) b
             = connections_request d oid (Some ?p) b" and i: "user_id ?p = a"
    using post_connections_request_known_user [OF assms(1,2)] by simp_all
  have "\<exists>c\<in>set (requests d). sender c = user_id ?p \<and> receiver c = b"
    using assms(3) i by simp
  from connections_request_duplicate [OF this] show ?thesis
    using p by simp
qed

text \<open>
  C1. The request carries a token of the stored user \<open>a\<close> (the sender) and names the
  receiver \<open>b\<close>. If no stored connection request has sender \<open>a\<close> and receiver \<open>b\<close>, the
  first call is answered with the new pending request and appends exactly that one
  document; the second call, on the database the first one left, is answered with 400
  and the message "Already sent" and changes nothing. And whenever some stored request
  has sender \<open>a\<close> and receiver \<open>b\<close>, whatever its status, the call is answered with that
  400 and changes nothing.
\<close>

theorem C1_duplicate_request_rejected:
  assumes "index ws 1 = Some (Jwt a secret)" and "User_findById d a = Some ua"
  shows "((\<forall>c\<in>set (requests d). \<not> (sender c = a \<and> receiver c = b)) \<longrightarrow>
      (\<exists>d1. post_connections_request d secret oid (Some ws) b =
           (Inr (reply 200 (RequestDoc
              \<lparr>request_id = oid, sender = a, receiver = b, status = ''pending''\<rparr>)), d1)
         \<and> requests d1 = requests d @
              [\<lparr>request_id = oid, sender = a, receiver = b, status = ''pending''\<rparr>]
         \<and> users d1 = users d \<and> jobs d1 = jobs d
         \<and> post_connections_request d1 secret oid' (Some ws) b
              = (Inr (reply 400 (Message ''Already sent'')), d1)))
   \<and> ((\<exists>c\<in>set (requests d). sender c = a \<and> receiver c = b) \<longrightarrow>
        post_connections_request d secret oid (Some ws) b
          = (Inr (reply 400 (Message ''Already sent'')), d))"
proof (intro conjI impI)
  assume fresh: "\<forall>c\<in>set (requests d). \<not> (sender c = a \<and> receiver c = b)"
  let ?new = "\<lparr>request_id = oid, sender = a, receiver = b, status = ''pending''\<rparr>"
  let ?d1 = "d\<lparr>requests := requests d @ [?new]\<rparr>"
  have first: "post_connections_request d secret oid (Some ws) b
                 = (Inr (reply 200 (RequestDoc ?new)), ?d1)"
    using post_connections_request_new [OF assms fresh] .
  have still: "User_findById ?d1 a = Some ua"
    using assms(2) by (simp add: User_findById_def)
  have stored: "\<exists>c\<in>set (requests ?d1). sender c = a \<and> receiver c = b"
    by simp
  have second: "post_connections_request ?d1 secret oid' (Some ws) b
                  = (Inr (reply 400 (Message ''Already sent'')), ?d1)"
    using post_connections_request_duplicate [OF assms(1) still stored] .
  show "\<exists>d1. post_connections_request d secret oid (Some ws) b
           = (Inr (reply 200 (RequestDoc ?new)), d1)
         \<and> requests d1 = requests d @ [?new]
         \<and> users d1 = users d \<and> jobs d1 = jobs d
         \<and> post_connections_request d1 secret oid' (Some ws) b
              = (Inr (reply 400 (Message ''Already sent'')), d1)"
    using first second by (intro exI [of _ ?d1]) simp
next
  assume "\<exists>c\<in>set (requests d). sender c = a \<and> receiver c = b"
  then show "post_connections_request d secret oid (Some ws) b
          = (Inr (reply 400 (Message ''Already sent'')), d)"
    using post_connections_request_duplicate [OF assms] by simp
qed

lemma bearer_token: "index [Plain ''Bearer'', Jwt i k] 1 = Some (Jwt i k)"
  by (simp add: index_def)

lemma db2_alice: "User_findById db2 1 = Some alice"
  by (simp add: User_findById_def db2_def alice_def)

lemma db3_alice: "User_findById db3 1 = Some alice"
  by (simp add: User_findById_def db3_def alice_def)

lemma db3_bob: "User_findById db3 2 = Some bob"
  by (simp add: User_findById_def db3_def alice_def bob_def)

theorem C1_duplicate_request_witness:
  "(\<exists>d1. post_connections_request db2 ''s3cret'' 10 (bearer (Jwt 1 ''s3cret'')) 2 =
           (Inr (reply 200 (RequestDoc
              \<lparr>request_id = 10, sender = 1, receiver = 2, status = ''pending''\<rparr>)), d1)
         \<and> requests d1 = requests db2 @
              [\<lparr>request_id = 10, sender = 1, receiver = 2, status = ''pending''\<rparr>]
         \<and> users d1 = users db2 \<and> jobs d1 = jobs db2
         \<and> post_connections_request d1 ''s3cret'' 11 (bearer (Jwt 1 ''s3cret'')) 2
              = (Inr (reply 400 (Message ''Already sent'')), d1))
   \<and> post_connections_request db3 ''s3cret'' 11 (bearer (Jwt 1 ''s3cret'')) 2
          = (Inr (reply 400 (Message ''Already sent'')), db3)"
proof -
  have none: "\<forall>c\<in>set (requests db2). \<not> (sender c = 1 \<and> receiver c = 2)"
    by (simp add: db2_def)
  have some: "\<exists>c\<in>set (requests db3). sender c = 1 \<and> receiver c = 2"
    by (simp add: db3_def)
  show ?thesis
    using C1_duplicate_request_rejected [OF bearer_token db2_alice,
        where b = 2 and oid = 10 and oid' = 11 and secret = "''s3cret''"]
      C1_duplicate_request_rejected [OF bearer_token db3_alice,
        where b = 2 and oid = 11 and secret = "''s3cret''"]
      none some
    unfolding bearer_def by blast
qed

text \<open>
  C8. The request carries a token of the stored user \<open>b\<close> and names the receiver \<open>a\<close>.
  It succeeds, answering with the new pending request from \<open>b\<close> to \<open>a\<close> and appending
  that document, exactly when no stored request has sender \<open>b\<close> and receiver \<open>a\<close>.
  Stored requests from \<open>a\<close> to \<open>b\<close> play no part: the guard looks up the ordered pair
  only.
\<close>

theorem C8_inverse_request_not_deduplicated:
  assumes "index ws 1 = Some (Jwt b secret)" and "User_findById d b = Some ub"
  shows "post_connections_request d secret oid (Some ws) a =
      (Inr (reply 200 (RequestDoc
         \<lparr>request_id = oid, sender = b, receiver = a, status = ''pending''\<rparr>)),
       d\<lparr>requests := requests d @
         [\<lparr>request_id = oid, sender = b, receiver = a, status = ''pending''\<rparr>]\<rparr>)
    \<longleftrightarrow> (\<forall>c\<in>set (requests d). \<not> (sender c = b \<and> receiver c = a))"
proof
  assume ok: "post_connections_request d secret oid (Some ws) a =
      (Inr (reply 200 (RequestDoc
         \<lparr>request_id = oid, sender = b, receiver = a, status = ''pending''\<rparr>)),
       d\<lparr>requests := requests d @
         [\<lparr>request_id = oid, sender = b, receiver = a, status = ''pending''\<rparr>]\<rparr>)"
  show "\<forall>c\<in>set (requests d). \<not> (sender c = b \<and> receiver c = a)"
  proof (rule ccontr)
    assume "\<not> (\<forall>c\<in>set (requests d). \<not> (sender c = b \<and> receiver c = a))"
    then have "\<exists>c\<in>set (requests d). sender c = b \<and> receiver c = a"
      by simp
    from post_connections_request_duplicate [OF assms this]
    have "post_connections_request d secret oid (Some ws) a
            = (Inr (reply 400 (Message ''Already sent'')), d)" .
    with ok show False
      by (simp add: reply_def)
  qed
next
  assume "\<forall>c\<in>set (requests d). \<not> (sender c = b \<and> receiver c = a)"
  then show "post_connections_request d secret oid (Some ws) a =
      (Inr (reply 200 (RequestDoc
         \<lparr>request_id = oid, sender = b, receiver = a, status = ''pending''\<rparr>)),
       d\<lparr>requests := requests d @
         [\<lparr>request_id = oid, sender = b, receiver = a, status = ''pending''\<rparr>]\<rparr>)"
    by (rule post_connections_request_new [OF assms])
qed

text \<open>In \<open>db3\<close> the request from alice (1) to bob (2) is stored; bob now asks alice.\<close>

theorem C8_inverse_request_witness:
  "post_connections_request db3 ''s3cret'' 11 (bearer (Jwt 2 ''s3cret'')) 1 =
      (Inr (reply 200 (RequestDoc
         \<lparr>request_id = 11, sender = 2, receiver = 1, status = ''pending''\<rparr>)),
       db3\<lparr>requests :=
         [\<lparr>request_id = 10, sender = 1, receiver = 2, status = ''rejected''\<rparr>,
          \<lparr>request_id = 11, sender = 2, receiver = 1, status = ''pending''\<rparr>]\<rparr>)"
proof -
  have none: "\<forall>c\<in>set (requests db3). \<not> (sender c = 2 \<and> receiver c = 1)"
    by (simp add: db3_def)
  have "requests db3 = [\<lparr>request_id = 10, sender = 1, receiver = 2, status = ''rejected''\<rparr>]"
    by (simp add: db3_def)
  then show ?thesis
    using C8_inverse_request_not_deduplicated [OF bearer_token db3_bob,
        where a = 1 and oid = 11 and secret = "''s3cret''"] none
    unfolding bearer_def by simp
qed

section \<open>Applying to a job\<close>

lemma addToSet_idem: "addToSet a (addToSet a xs) = addToSet a xs"
  by (simp add: addToSet_def)

lemma set_addToSet: "set (addToSet a xs) = insert a (set xs)"
  by (auto simp: addToSet_def)

lemma count_addToSet:
  "count_list (addToSet a xs) a = (if a \<in> set xs then count_list xs a else 1)"
  by (simp add: addToSet_def count_list_0_iff)

lemma count_addToSet_once:
  assumes "count_list xs a \<le> 1"
  shows "count_list (addToSet a xs) a = 1"
proof (cases "a \<in> set xs")
  case True
  then have "count_list xs a \<noteq> 0"
    by (simp add: count_list_0_iff)
  with assms True show ?thesis
    by (simp add: count_addToSet)
next
  case False
  then show ?thesis
    by (simp add: count_addToSet)
qed

lemma update_one_idem:
  assumes "\<And>x. P x \<Longrightarrow> P (f x) \<and> f (f x) = f x"
  shows "update_one P f (update_one P f xs) = update_one P f xs"
  using assms by (induction xs) auto

lemma find_update_one:
  assumes "\<And>x. P x \<Longrightarrow> P (f x)"
  shows "find P (update_one P f xs) = map_option f (find P xs)"
  using assms by (induction xs) auto

lemma Job_update_idem:
  "Job_findByIdAndUpdate_addToSet (Job_findByIdAndUpdate_addToSet d j a) j a
     = Job_findByIdAndUpdate_addToSet d j a"
  by (simp add: Job_findByIdAndUpdate_addToSet_def update_one_idem addToSet_idem)

lemma Job_update_find:
  "find (\<lambda>x. job_id x = j) (jobs (Job_findByIdAndUpdate_addToSet d j a))
     = map_option (\<lambda>x. x\<lparr>applicants := addToSet a (applicants x)\<rparr>)
         (find (\<lambda>x. job_id x = j) (jobs d))"
  by (simp add: Job_findByIdAndUpdate_addToSet_def find_update_one)

lemma Job_update_users: "users (Job_findByIdAndUpdate_addToSet d j a) = users d"
  by (simp add: Job_findByIdAndUpdate_addToSet_def)

lemma Job_update_requests: "requests (Job_findByIdAndUpdate_addToSet d j a) = requests d"
  by (simp add: Job_findByIdAndUpdate_addToSet_def)

lemma post_jobs_apply_known_user:
  assumes "index ws 1 = Some (Jwt a secret)" and "User_findById d a = Some ua"
  shows "post_jobs_apply d secret (Some ws) j
           = (Inr (reply 200 (Message ''Applied'')), Job_findByIdAndUpdate_addToSet d j a)"
proof -
  have "user_id (select_minus_password ua) = a"
    using assms(2) by (simp add: select_minus_password_def User_findById_Some_id)
  then show ?thesis
    using assms by (simp add: post_jobs_apply_def auth_known_user jobs_apply_def)
qed

text \<open>
  C10, as the code has it. The request carries a token of the stored user \<open>a\<close> and
  names the job \<open>j\<close>.
  The call is answered with the message "Applied", and so is a second identical call,
  which leaves the whole database exactly as the first call left it. If a job with id
  \<open>j\<close> is stored, its applicant set after the calls is the old one with \<open>a\<close> added;
  when the array held \<open>a\<close> at most once before, it holds \<open>a\<close> exactly once after.
\<close>

theorem C10_apply_idempotent:
  assumes "index ws 1 = Some (Jwt a secret)" and "User_findById d a = Some ua"
  shows "\<exists>d1. post_jobs_apply d secret (Some ws) j = (Inr (reply 200 (Message ''Applied'')), d1)
      \<and> post_jobs_apply d1 secret (Some ws) j = (Inr (reply 200 (Message ''Applied'')), d1)
      \<and> (\<forall>job. find (\<lambda>x. job_id x = j) (jobs d) = Some job \<longrightarrow>
           (\<exists>job'. find (\<lambda>x. job_id x = j) (jobs d1) = Some job'
              \<and> set (applicants job') = insert a (set (applicants job))
              \<and> (count_list (applicants job) a \<le> 1 \<longrightarrow> count_list (applicants job') a = 1)))"
proof -
  let ?d1 = "Job_findByIdAndUpdate_addToSet d j a"
  have first: "post_jobs_apply d secret (Some ws) j
                 = (Inr (reply 200 (Message ''Applied'')), ?d1)"
    using assms by (rule post_jobs_apply_known_user)
  have still: "User_findById ?d1 a = Some ua"
    using assms(2) by (simp add: User_findById_def Job_update_users)
  have second: "post_jobs_apply ?d1 secret (Some ws) j
                  = (Inr (reply 200 (Message ''Applied'')), ?d1)"
    using post_jobs_apply_known_user [OF assms(1) still, of j] by (simp add: Job_update_idem)
  have stored: "\<exists>job'. find (\<lambda>x. job_id x = j) (jobs ?d1) = Some job'
              \<and> set (applicants job') = insert a (set (applicants job))
              \<and> (count_list (applicants job) a \<le> 1 \<longrightarrow> count_list (applicants job') a = 1)"
    if "find (\<lambda>x. job_id x = j) (jobs d) = Some job" for job
    using that by (simp add: Job_update_find set_addToSet count_addToSet_once)
  show ?thesis
    using first second stored by blast
qed

lemma db4_alice: "User_findById db4 1 = Some alice"
  by (simp add: User_findById_def db4_def alice_def)

theorem C10_apply_idempotent_witness:
  "\<exists>d1. post_jobs_apply db4 ''s3cret'' (bearer (Jwt 1 ''s3cret'')) 5
           = (Inr (reply 200 (Message ''Applied'')), d1)
      \<and> post_jobs_apply d1 ''s3cret'' (bearer (Jwt 1 ''s3cret'')) 5
           = (Inr (reply 200 (Message ''Applied'')), d1)
      \<and> (\<exists>job'. find (\<lambda>x. job_id x = 5) (jobs d1) = Some job'
              \<and> set (applicants job') = {1, 2}
              \<and> count_list (applicants job') 1 = 1)"
proof -
  have stored: "find (\<lambda>x. job_id x = 5) (jobs db4) = Some job5"
    by (simp add: db4_def job5_def)
  have once: "count_list (applicants job5) 1 \<le> 1"
    by (simp add: job5_def)
  have old: "insert 1 (set (applicants job5)) = {1, 2}"
    by (simp add: job5_def)
  from C10_apply_idempotent [OF bearer_token db4_alice, where j = 5 and secret = "''s3cret''"]
  obtain d1 where
    a: "post_jobs_apply db4 ''s3cret'' (Some [Plain ''Bearer'', Jwt 1 ''s3cret'']) 5
          = (Inr (reply 200 (Message ''Applied'')), d1)" and
    b: "post_jobs_apply d1 ''s3cret'' (Some [Plain ''Bearer'', Jwt 1 ''s3cret'']) 5
          = (Inr (reply 200 (Message ''Applied'')), d1)" and
    c: "\<forall>job. find (\<lambda>x. job_id x = 5) (jobs db4) = Some job \<longrightarrow>
           (\<exists>job'. find (\<lambda>x. job_id x = 5) (jobs d1) = Some job'
              \<and> set (applicants job') = insert 1 (set (applicants job))
              \<and> (count_list (applicants job) 1 \<le> 1 \<longrightarrow> count_list (applicants job') 1 = 1))"
    by blast
  from c stored once old
  have "\<exists>job'. find (\<lambda>x. job_id x = 5) (jobs d1) = Some job'
              \<and> set (applicants job') = {1, 2}
              \<and> count_list (applicants job') 1 = 1"
    by metis
  with a b show ?thesis
    unfolding bearer_def by blast
qed

lemma db5_alice: "User_findById db5 1 = Some alice"
  by (simp add: User_findById_def db5_def alice_def)

text \<open>
  The claim as the specification words it (for every job the user's id appears at most
  once in the applicants) fails on a job whose applicants hold the id twice already:
  \<^verbatim>\<open>$addToSet\<close> adds nothing and removes nothing, so after the call, which changes
  nothing, the id is still there twice.
\<close>

theorem C10_apply_keeps_duplicates_counterexample:
  "post_jobs_apply db5 ''s3cret'' (bearer (Jwt 1 ''s3cret'')) 5
     = (Inr (reply 200 (Message ''Applied'')), db5)
   \<and> map applicants (jobs db5) = [[1, 1]]
   \<and> count_list [1, 1 :: objectId] 1 = 2"
proof -
  have "Job_findByIdAndUpdate_addToSet db5 5 1 = db5"
    by (simp add: Job_findByIdAndUpdate_addToSet_def db5_def job5_def addToSet_def)
  then have "post_jobs_apply db5 ''s3cret'' (bearer (Jwt 1 ''s3cret'')) 5
     = (Inr (reply 200 (Message ''Applied'')), db5)"
    using post_jobs_apply_known_user [OF bearer_token db5_alice, of "''s3cret''" 5]
    by (simp add: bearer_def)
  moreover have "map applicants (jobs db5) = [[1, 1]]"
    by (simp add: db5_def)
  ultimately show ?thesis
    by simp
qed

section \<open>Searching users\<close>

lemma regex_compile_literal:
  "set q \<inter> set metachars = {} \<Longrightarrow> regex_compile q = Some (map Lit q)"
  by (induction q) (auto simp: metachars_def)

lemma match_here_literal:
  "match_here (map Lit q) s = prefix (map lower q) (map lower s)"
proof (induction q arbitrary: s)
  case Nil
  then show ?case by simp
next
  case (Cons c q)
  then show ?case by (cases s) simp_all
qed

lemma regex_search_literal:
  "regex_search (map Lit q) s = contains_ci s q"
proof (induction s)
  case Nil
  then show ?case by (cases q) (simp_all add: contains_ci_def)
next
  case (Cons c s)
  then show ?case
    by (simp add: match_here_literal sublist_Cons_right contains_ci_def del: match_here.simps)
qed

lemma name_matches_literal: "name_matches (map Lit q) = (\<lambda>u. name_contains_ci u q)"
  by (rule ext)
    (simp add: name_matches_def name_contains_ci_def regex_search_literal split: option.split)

lemma users_all_literal:
  assumes "set q \<inter> set metachars = {}"
  shows "users_all d (Some q)
           = Some (Inr (reply 200 (UserArray (filter (\<lambda>u. name_contains_ci u q) (users d)))))"
  using assms
  by (simp add: users_all_def User_find_name_regex_def regex_compile_literal
      name_matches_literal)

lemma regex_search_empty: "regex_search [] s"
  by (cases s) simp_all

lemma name_matches_empty: "name_matches [] = (\<lambda>u. name u \<noteq> None)"
  by (rule ext) (simp add: name_matches_def regex_search_empty split: option.split)

lemma users_all_no_query:
  "users_all d None = Some (Inr (reply 200 (UserArray (filter (\<lambda>u. name u \<noteq> None) (users d)))))"
  by (simp add: users_all_def User_find_name_regex_def name_matches_empty)

text \<open>
  C7, as the code has it. The query string is used as a regular expression. The statement
  is for ASCII text without NUL bytes, where caseless matching is the folding of the
  letters \<open>A\<close> to \<open>Z\<close>: the query string and the stored names are such text. For a request that passes the gate and
  a query string without any regular-expression metacharacter, the answer is the array of
  exactly the stored users that have a name containing the query string as a substring,
  letters compared without case, in stored order. Without a query string the answer is
  the array of the stored users that have a name.
\<close>

theorem C7_users_all_literal_query:
  assumes "index ws 1 = Some (Jwt i secret)" and "set q \<inter> set metachars = {}"
    and "ascii q" and "ascii_names d"
  shows "get_users_all d secret (Some ws) (Some q)
           = Some (Inr (reply 200 (UserArray (filter (\<lambda>u. name_contains_ci u q) (users d)))))
   \<and> get_users_all d secret (Some ws) None
           = Some (Inr (reply 200 (UserArray (filter (\<lambda>u. name u \<noteq> None) (users d)))))"
  using assms(1,2)
  by (simp add: get_users_all_def auth_valid users_all_literal users_all_no_query)

theorem C7_users_all_literal_witness:
  "get_users_all db2 ''s3cret'' (bearer (Jwt 1 ''s3cret'')) (Some ''LiC'')
     = Some (Inr (reply 200 (UserArray [alice])))
   \<and> get_users_all db2 ''s3cret'' (bearer (Jwt 1 ''s3cret'')) None
     = Some (Inr (reply 200 (UserArray [alice, bob])))"
proof -
  have lit: "set ''LiC'' \<inter> set metachars = {}"
    by (simp add: metachars_def)
  have q: "ascii ''LiC''"
    by (simp add: ascii_def)
  have names: "ascii_names db2"
    by (simp add: ascii_names_def ascii_def db2_def alice_def bob_def)
  have found: "filter (\<lambda>u. name_contains_ci u ''LiC'') (users db2) = [alice]"
    by (simp add: db2_def alice_def bob_def name_contains_ci_def contains_ci_def lower_def
        sublist_Cons_right)
  have named: "filter (\<lambda>u. name u \<noteq> None) (users db2) = [alice, bob]"
    by (simp add: db2_def alice_def bob_def)
  show ?thesis
    using C7_users_all_literal_query [OF bearer_token lit q names,
        where i = 1 and secret = "''s3cret''"] found named
    unfolding bearer_def by simp
qed

text \<open>
  The claim as the specification words it (the result is exactly the users whose name
  contains the query string) fails for the query string of one dot: the dot matches any
  character, so alice is returned although her name contains no dot.
\<close>

theorem C7_regex_not_substring_counterexample:
  "get_users_all db1 ''s3cret'' (bearer (Jwt 1 ''s3cret'')) (Some ''.'')
     = Some (Inr (reply 200 (UserArray [alice])))
   \<and> name alice = Some ''alice''
   \<and> \<not> contains_ci ''alice'' ''.''
   \<and> get_users_all db1 ''s3cret'' (bearer (Jwt 1 ''s3cret'')) (Some ''.'')
     \<noteq> Some (Inr (reply 200 (UserArray (filter (\<lambda>u. name_contains_ci u ''.'') (users db1)))))"
proof -
  have gate: "get_users_all db1 ''s3cret'' (bearer (Jwt 1 ''s3cret'')) (Some ''.'')
                = users_all db1 (Some ''.'')"
    by (simp add: get_users_all_def bearer_def auth_valid [OF bearer_token])
  have found: "users_all db1 (Some ''.'') = Some (Inr (reply 200 (UserArray [alice])))"
    by (simp add: users_all_def User_find_name_regex_def name_matches_def db1_def alice_def)
  have nodot: "\<not> contains_ci ''alice'' ''.''"
    by (simp add: contains_ci_def lower_def sublist_Cons_right)
  then have "filter (\<lambda>u. name_contains_ci u ''.'') (users db1) = []"
    by (simp add: db1_def alice_def name_contains_ci_def)
  with gate found nodot show ?thesis
    by (simp add: reply_def alice_def)
qed

text \<open>
  C6, evaluated. Alice registers on the empty database and the server answers with the
  token \<open>Jwt 1 s3cret\<close>; the search for \<open>ali\<close> with that token is answered with the
  array of exactly alice's record, and that record carries the \<^verbatim>\<open>password\<close> field with
  the stored hash. Only the middleware's own lookup has \<^verbatim>\<open>.select("-password")\<close>.
\<close>

theorem C6_search_returns_password_hash:
  "register db0 ''s3cret'' 1 ''salt'' alice_body
     = (Inr (reply 200 (TokenUser (Jwt 1 ''s3cret'') alice)), db1)
   \<and> get_users_all db1 ''s3cret'' (bearer (Jwt 1 ''s3cret'')) (Some ''ali'')
     = Some (Inr (reply 200 (UserArray [alice])))
   \<and> password alice = Some (bcrypt_hash ''pw1'' ''salt'')
   \<and> auth_trace db1 ''s3cret'' (bearer (Jwt 1 ''s3cret''))
     = [NextCalled (Some (alice\<lparr>password := None\<rparr>))]"
proof -
  have gate: "get_users_all db1 ''s3cret'' (bearer (Jwt 1 ''s3cret'')) (Some ''ali'')
                = users_all db1 (Some ''ali'')"
    by (simp add: get_users_all_def bearer_def auth_valid [OF bearer_token])
  have found: "users_all db1 (Some ''ali'') = Some (Inr (reply 200 (UserArray [alice])))"
    by (simp add: users_all_def User_find_name_regex_def name_matches_def db1_def alice_def
        metachars_def lower_def)
  have principal: "auth_trace db1 ''s3cret'' (bearer (Jwt 1 ''s3cret''))
     = [NextCalled (Some (alice\<lparr>password := None\<rparr>))]"
    by (simp add: auth_trace_def bearer_def auth_valid [OF bearer_token] User_findById_def
        db1_def select_minus_password_def alice_def)
  show ?thesis
    using register_alice gate found principal by (simp add: alice_def)
qed

end
